theory Spec2Isabelle
  imports Complex_Main "HOL-Library.AList" "HOL-Library.Multiset" "HOL-Library.Char_ord" "HOL-Library.List_Lexorder"
begin

section \<open>Python values used by \<open>mmworkbench/models/text_models.py\<close>\<close>

text \<open>
  Names follow the source; a leading underscore of a Python name is written \<open>u_\<close>
  (\<open>_predict_proba\<close> is \<open>u_predict_proba\<close>).

  A float is an exact real or one of the three special values of a double. Rounding is
  not part of the model; the special values and their comparisons are.
\<close>

datatype pyfloat = Fin real | PosInf | NegInf | NaN

text \<open>Python's \<open>a > b\<close> on floats: every comparison with NaN is false.\<close>

fun fgt :: "pyfloat \<Rightarrow> pyfloat \<Rightarrow> bool" where
  "fgt (Fin a) (Fin b) = (b < a)"
| "fgt (Fin a) NegInf = True"
| "fgt (Fin a) PosInf = False"
| "fgt (Fin a) NaN = False"
| "fgt PosInf (Fin b) = True"
| "fgt PosInf NegInf = True"
| "fgt PosInf PosInf = False"
| "fgt PosInf NaN = False"
| "fgt NegInf b = False"
| "fgt NaN b = False"

text \<open>
  The exceptions the modelled code can raise. \<open>NotRecognized cls kind\<close> is the message
  \<open>'{}: Classifier type {!r} not recognized'.format(cls, kind)\<close>; the other messages of
  ValueError come from numpy and scikit-learn.
\<close>

datatype vmsg = NotRecognized string string | UnseenLabels | EmptySequence | BadInput

datatype error = ValueError vmsg | NotFittedError | AttributeError | TypeError
  | IndexError | KeyError | ZeroDivisionError

text \<open>
  A dict is an association list in insertion order with distinct keys:
  \<open>d[k] = v\<close> is \<open>AList.update k v d\<close> (an existing key keeps its place, a new key goes
  last), \<open>d.get(k, dflt)\<close> is \<open>dict_get\<close>, \<open>del d[k]\<close> is \<open>AList.delete k d\<close>.
\<close>

definition dict_get :: "('k \<times> 'v) list \<Rightarrow> 'k \<Rightarrow> 'v \<Rightarrow> 'v" where
  "dict_get d k dflt = (case map_of d k of None \<Rightarrow> dflt | Some v \<Rightarrow> v)"

section \<open>The class encoder (scikit-learn's LabelEncoder)\<close>

text \<open>
  The encoder's state is \<open>classes_\<close>: absent before fitting, afterwards the sorted
  distinct raw labels. A class id is an index into it.
\<close>

type_synonym class_encoder = "string list option"

fun index_of :: "'a list \<Rightarrow> 'a \<Rightarrow> nat option" where
  "index_of [] x = None"
| "index_of (y # ys) x = (if x = y then Some 0 else map_option Suc (index_of ys x))"

definition ce_fit_transform :: "string list \<Rightarrow> class_encoder \<times> nat list" where
  "ce_fit_transform y =
     (let classes = remdups (sort y)
      in (Some classes, map (\<lambda>l. the (index_of classes l)) y))"

definition ce_transform1 :: "class_encoder \<Rightarrow> string \<Rightarrow> error + nat" where
  "ce_transform1 ce l =
     (case ce of None \<Rightarrow> Inl NotFittedError
      | Some classes \<Rightarrow>
          (case index_of classes l of None \<Rightarrow> Inl (ValueError UnseenLabels)
           | Some i \<Rightarrow> Inr i))"

definition ce_inverse_transform1 :: "class_encoder \<Rightarrow> nat \<Rightarrow> error + string" where
  "ce_inverse_transform1 ce i =
     (case ce of None \<Rightarrow> Inl NotFittedError
      | Some classes \<Rightarrow>
          (if i < length classes then Inr (classes ! i)
           else Inl (ValueError UnseenLabels)))"

section \<open>Decoding probability rows: \<open>_predict_proba\<close>\<close>

text \<open>
  The inner loop of \<open>_predict_proba\<close> over \<open>enumerate(row)\<close>. \<open>dec raw\<close> is
  \<open>self._label_encoder.decode([raw])[0]\<close>. The running best is read from the dict
  after the current entry has been stored, with default \<open>-1.0\<close>; the top class (\<open>top_cls\<close>) starts
  as None, which is never a key.
\<close>

fun row_loop :: "class_encoder \<Rightarrow> (string \<Rightarrow> 'lab) \<Rightarrow> nat \<Rightarrow> pyfloat list
    \<Rightarrow> 'lab option \<Rightarrow> ('lab \<times> pyfloat) list
    \<Rightarrow> error + ('lab option \<times> ('lab \<times> pyfloat) list)" where
  "row_loop ce dec class_index [] top_cls probabilities = Inr (top_cls, probabilities)"
| "row_loop ce dec class_index (proba # rest) top_cls probabilities =
     (case ce_inverse_transform1 ce class_index of
        Inl e \<Rightarrow> Inl e
      | Inr raw_class \<Rightarrow>
          (let decoded_class = dec raw_class;
               probabilities' = AList.update decoded_class proba probabilities;
               best = (case top_cls of None \<Rightarrow> Fin (- 1)
                       | Some t \<Rightarrow> dict_get probabilities' t (Fin (- 1)))
           in row_loop ce dec (Suc class_index) rest
                (if fgt proba best then Some decoded_class else top_cls)
                probabilities'))"

text \<open>One row: \<open>row.argmax()\<close> raises ValueError on an empty row, then the loop runs.\<close>

definition decode_row :: "class_encoder \<Rightarrow> (string \<Rightarrow> 'lab) \<Rightarrow> pyfloat list
    \<Rightarrow> error + ('lab option \<times> ('lab \<times> pyfloat) list)" where
  "decode_row ce dec row =
     (if row = [] then Inl (ValueError EmptySequence)
      else row_loop ce dec 0 row None [])"

text \<open>\<open>_predict_proba\<close> on the rows \<open>predictor(X)\<close>: the first failing row raises.\<close>

fun u_predict_proba :: "class_encoder \<Rightarrow> (string \<Rightarrow> 'lab) \<Rightarrow> pyfloat list list
    \<Rightarrow> error + ('lab option \<times> ('lab \<times> pyfloat) list) list" where
  "u_predict_proba ce dec [] = Inr []"
| "u_predict_proba ce dec (row # rows) =
     (case decode_row ce dec row of
        Inl e \<Rightarrow> Inl e
      | Inr p \<Rightarrow>
          (case u_predict_proba ce dec rows of
             Inl e \<Rightarrow> Inl e
           | Inr ps \<Rightarrow> Inr (p # ps)))"

section \<open>The model object and its collaborators\<close>

text \<open>
  \<open>TextModel\<close>'s fields as the methods below use them. The three feature stages are
  scikit-learn objects: their learned state is opaque (\<open>'s\<close>), their behaviour is in
  the collaborators record. A scaler or selector that is not configured is None.
  Parameter dicts are objects on the heap and are held by reference.
\<close>

datatype pyval = PNone | PInt int | PFloat pyfloat | PStr string
  | PList "pyval list" | PDict "(pyval \<times> pyval) list"

type_synonym pdict = "(string \<times> pyval) list"
type_synonym addr = nat
type_synonym heap = "addr \<Rightarrow> pdict"

record ('s, 'clf, 'sel) text_model =
  model_settings :: "(string \<times> string) list option"
  config_params :: "addr option"
  param_selection :: "'sel option"
  clf :: "'clf option"
  current_params :: "addr option"
  class_encoder :: class_encoder
  feat_vectorizer :: 's
  feat_scaler :: "'s option"
  feat_selector :: "'s option"

datatype model_class = LogisticRegression | DecisionTreeClassifier
  | RandomForestClassifier | SVC

text \<open>
  What the class calls but does not define: the feature extractor and label encoder of
  the parent class, the scikit-learn stages and classifiers, the cross-validated search
  \<open>_fit_cv\<close> of the parent class, and the order \<open>random.shuffle\<close> leaves a list in.
  \<open>lbl_decode raw\<close> is \<open>self._label_encoder.decode([raw])[0]\<close>.
\<close>

record ('ex, 'lab, 'f, 'x, 's, 'clf, 'sel) collaborators =
  extract_features :: "'ex \<Rightarrow> 'f"
  lbl_encode :: "'lab list \<Rightarrow> string list"
  lbl_decode :: "string \<Rightarrow> 'lab"
  vec_fit_transform :: "'s \<Rightarrow> 'f list \<Rightarrow> 's \<times> 'x"
  vec_transform :: "'s \<Rightarrow> 'f list \<Rightarrow> 'x"
  scaler_fit_transform :: "'s \<Rightarrow> 'x \<Rightarrow> 's \<times> 'x"
  scaler_transform :: "'s \<Rightarrow> 'x \<Rightarrow> 'x"
  selector_fit_transform :: "'s \<Rightarrow> 'x \<Rightarrow> nat list \<Rightarrow> 's \<times> 'x"
  selector_transform :: "'s \<Rightarrow> 'x \<Rightarrow> 'x"
  clf_fit :: "model_class \<Rightarrow> pdict \<Rightarrow> 'x \<Rightarrow> nat list \<Rightarrow> error + 'clf"
  clf_predict_proba :: "'clf \<Rightarrow> 'x \<Rightarrow> pyfloat list list"
  clf_predict_log_proba :: "'clf \<Rightarrow> 'x \<Rightarrow> pyfloat list list"
  fit_cv :: "('s, 'clf, 'sel) text_model \<Rightarrow> heap \<Rightarrow> 'x \<Rightarrow> nat list \<Rightarrow> nat list
      \<Rightarrow> (error + 'clf \<times> addr) \<times> heap"
  shuffle :: "nat list \<Rightarrow> nat list"

section \<open>The feature pipeline: \<open>_preprocess_data\<close> and \<open>get_feature_matrix\<close>\<close>

text \<open>
  The labels \<open>y\<close> that come out: None or the raw labels that went in (transform mode),
  or the class ids of the refitted class encoder (fit mode).
\<close>

datatype yval = YNone | YRaw "string list" | YIds "nat list"

fun y_in :: "string list option \<Rightarrow> yval" where
  "y_in None = YNone"
| "y_in (Some ls) = YRaw ls"

text \<open>
  \<open>_preprocess_data(X, y, fit)\<close>: returns \<open>(X, y)\<close> and the model with its refitted
  stages. In fit mode the class encoder is refitted first; scikit-learn rejects
  \<open>y = None\<close> there, before any feature stage runs.
\<close>

definition u_preprocess_data ::
  "('ex, 'lab, 'f, 'x, 's, 'clf, 'sel) collaborators \<Rightarrow> ('s, 'clf, 'sel) text_model
   \<Rightarrow> 'f list \<Rightarrow> string list option \<Rightarrow> bool
   \<Rightarrow> (error + 'x \<times> yval) \<times> ('s, 'clf, 'sel) text_model" where
  "u_preprocess_data env self X y fit =
     (if fit then
        (case y of
           None \<Rightarrow> (Inl (ValueError BadInput), self)
         | Some raw \<Rightarrow>
            (let (ce, ids) = ce_fit_transform raw;
                 self1 = self\<lparr>class_encoder := ce\<rparr>;
                 (vs, X1) = vec_fit_transform env (feat_vectorizer self1) X;
                 self2 = self1\<lparr>feat_vectorizer := vs\<rparr>;
                 (self3, X2) =
                   (case feat_scaler self2 of
                      None \<Rightarrow> (self2, X1)
                    | Some sc \<Rightarrow>
                        (let (sc', X') = scaler_fit_transform env sc X1
                         in (self2\<lparr>feat_scaler := Some sc'\<rparr>, X')));
                 (self4, X3) =
                   (case feat_selector self3 of
                      None \<Rightarrow> (self3, X2)
                    | Some fs \<Rightarrow>
                        (let (fs', X') = selector_fit_transform env fs X2 ids
                         in (self3\<lparr>feat_selector := Some fs'\<rparr>, X')))
             in (Inr (X3, YIds ids), self4)))
      else
        (let X1 = vec_transform env (feat_vectorizer self) X;
             X2 = (case feat_scaler self of None \<Rightarrow> X1
                   | Some sc \<Rightarrow> scaler_transform env sc X1);
             X3 = (case feat_selector self of None \<Rightarrow> X2
                   | Some fs \<Rightarrow> selector_transform env fs X2)
         in (Inr (X3, y_in y), self)))"

definition get_feature_matrix ::
  "('ex, 'lab, 'f, 'x, 's, 'clf, 'sel) collaborators \<Rightarrow> ('s, 'clf, 'sel) text_model
   \<Rightarrow> 'ex list \<Rightarrow> string list option \<Rightarrow> bool
   \<Rightarrow> (error + 'x \<times> yval \<times> nat list) \<times> ('s, 'clf, 'sel) text_model" where
  "get_feature_matrix env self examples y fit =
     (let feats = map (extract_features env) examples;
          groups = [0..<length examples]
      in (case u_preprocess_data env self feats y fit of
            (Inl e, self') \<Rightarrow> (Inl e, self')
          | (Inr (X, y'), self') \<Rightarrow> (Inr (X, y', groups), self')))"

section \<open>Prediction\<close>

text \<open>
  \<open>predict_proba\<close> and \<open>predict_log_proba\<close> build the transform-mode matrix, read
  the bound method of \<open>self._clf\<close> (AttributeError when there is no classifier) and
  decode its rows. Neither changes the model.
\<close>

definition predict_proba ::
  "('ex, 'lab, 'f, 'x, 's, 'clf, 'sel) collaborators \<Rightarrow> ('s, 'clf, 'sel) text_model
   \<Rightarrow> 'ex list \<Rightarrow> error + ('lab option \<times> ('lab \<times> pyfloat) list) list" where
  "predict_proba env self examples =
     (case fst (get_feature_matrix env self examples None False) of
        Inl e \<Rightarrow> Inl e
      | Inr (X, _, _) \<Rightarrow>
          (case clf self of
             None \<Rightarrow> Inl AttributeError
           | Some c \<Rightarrow>
               u_predict_proba (class_encoder self) (lbl_decode env)
                 (clf_predict_proba env c X)))"

text \<open>\<open>_NEG_INF = -1e10\<close>\<close>

definition NEG_INF :: pyfloat where
  "NEG_INF = Fin (- 10000000000)"

text \<open>
  The loop of \<open>predict_log_proba\<close> over \<open>probas.items()\<close>: a value equal to
  \<open>-np.Infinity\<close> is overwritten, under its own key.
\<close>

definition replace_neg_inf :: "('lab \<times> pyfloat) list \<Rightarrow> ('lab \<times> pyfloat) list" where
  "replace_neg_inf probas =
     map (\<lambda>(label, proba). (label, if proba = NegInf then NEG_INF else proba)) probas"

definition predict_log_proba ::
  "('ex, 'lab, 'f, 'x, 's, 'clf, 'sel) collaborators \<Rightarrow> ('s, 'clf, 'sel) text_model
   \<Rightarrow> 'ex list \<Rightarrow> error + ('lab option \<times> ('lab \<times> pyfloat) list) list" where
  "predict_log_proba env self examples =
     (case fst (get_feature_matrix env self examples None False) of
        Inl e \<Rightarrow> Inl e
      | Inr (X, _, _) \<Rightarrow>
          (case clf self of
             None \<Rightarrow> Inl AttributeError
           | Some c \<Rightarrow>
               (case u_predict_proba (class_encoder self) (lbl_decode env)
                       (clf_predict_log_proba env c X) of
                  Inl e \<Rightarrow> Inl e
                | Inr predictions \<Rightarrow>
                    Inr (map (\<lambda>(top, probas). (top, replace_neg_inf probas)) predictions))))"

section \<open>Float arithmetic of the class-bias interpolation\<close>

fun fneg :: "pyfloat \<Rightarrow> pyfloat" where
  "fneg (Fin a) = Fin (- a)"
| "fneg PosInf = NegInf"
| "fneg NegInf = PosInf"
| "fneg NaN = NaN"

fun fadd :: "pyfloat \<Rightarrow> pyfloat \<Rightarrow> pyfloat" where
  "fadd (Fin a) (Fin b) = Fin (a + b)"
| "fadd NaN b = NaN"
| "fadd a NaN = NaN"
| "fadd PosInf NegInf = NaN"
| "fadd NegInf PosInf = NaN"
| "fadd PosInf b = PosInf"
| "fadd NegInf b = NegInf"
| "fadd (Fin a) b = b"

definition fsub :: "pyfloat \<Rightarrow> pyfloat \<Rightarrow> pyfloat" where
  "fsub a b = fadd a (fneg b)"

text \<open>An infinity (positive when \<open>pos\<close>) times \<open>b\<close>.\<close>

fun fmul_inf :: "bool \<Rightarrow> pyfloat \<Rightarrow> pyfloat" where
  "fmul_inf pos (Fin b) =
     (if b = 0 then NaN else if (0 < b) = pos then PosInf else NegInf)"
| "fmul_inf pos PosInf = (if pos then PosInf else NegInf)"
| "fmul_inf pos NegInf = (if pos then NegInf else PosInf)"
| "fmul_inf pos NaN = NaN"

fun fmul :: "pyfloat \<Rightarrow> pyfloat \<Rightarrow> pyfloat" where
  "fmul (Fin a) (Fin b) = Fin (a * b)"
| "fmul NaN b = NaN"
| "fmul a NaN = NaN"
| "fmul PosInf b = fmul_inf True b"
| "fmul NegInf b = fmul_inf False b"
| "fmul a PosInf = fmul_inf True a"
| "fmul a NegInf = fmul_inf False a"

section \<open>The parameter resolver: \<open>_convert_params\<close>\<close>

text \<open>\<open>numpy.bincount(y)\<close> on class ids: one count for each id up to the largest.\<close>

definition bincount :: "nat list \<Rightarrow> nat list" where
  "bincount y = (if y = [] then [] else map (count_list y) [0..<Suc (fold max y 0)])"

text \<open>
  \<open>old_div(len(y), float(len(classes)) * c)\<close>: the divisor is a numpy float, so the
  division is a float division and a zero divisor gives an infinity or NaN, not an
  exception.
\<close>

definition balanced_weight :: "nat \<Rightarrow> nat \<Rightarrow> nat \<Rightarrow> pyfloat" where
  "balanced_weight len_y n_classes c =
     (let d = real n_classes * real c
      in if d = 0 then (if len_y = 0 then NaN else PosInf) else Fin (real len_y / d))"

text \<open>
  \<open>(1 - class_bias) + class_bias * w\<close> with \<open>w\<close> a float: an int or float bias gives
  a float, anything else makes \<open>1 - class_bias\<close> a TypeError.
\<close>

definition interpolate :: "pyval \<Rightarrow> pyfloat \<Rightarrow> error + pyfloat" where
  "interpolate class_bias w =
     (case class_bias of
        PInt i \<Rightarrow> Inr (fadd (Fin (of_int (1 - i))) (fmul (Fin (of_int i)) w))
      | PFloat b \<Rightarrow> Inr (fadd (fsub (Fin 1) b) (fmul b w))
      | _ \<Rightarrow> Inl TypeError)"

text \<open>Iterating a value with \<open>for\<close>: a list gives its items, a dict its keys, a string its characters.\<close>

fun py_iter :: "pyval \<Rightarrow> error + pyval list" where
  "py_iter (PList xs) = Inr xs"
| "py_iter (PDict items) = Inr (map fst items)"
| "py_iter (PStr s) = Inr (map (\<lambda>c. PStr [c]) s)"
| "py_iter v = Inl TypeError"

text \<open>A list comprehension or an appending loop whose body can raise.\<close>

fun map_err :: "('a \<Rightarrow> error + 'b) \<Rightarrow> 'a list \<Rightarrow> error + 'b list" where
  "map_err f [] = Inr []"
| "map_err f (x # xs) =
     (case f x of
        Inl e \<Rightarrow> Inl e
      | Inr v \<Rightarrow> (case map_err f xs of Inl e \<Rightarrow> Inl e | Inr vs \<Rightarrow> Inr (v # vs)))"

text \<open>A dict comprehension: entries are stored in order, a repeated key is overwritten.\<close>

fun dict_comp :: "('a \<Rightarrow> error + 'k \<times> 'v) \<Rightarrow> 'a list \<Rightarrow> ('k \<times> 'v) list
    \<Rightarrow> error + ('k \<times> 'v) list" where
  "dict_comp f [] d = Inr d"
| "dict_comp f (x # xs) d =
     (case f x of
        Inl e \<Rightarrow> Inl e
      | Inr (k, v) \<Rightarrow> dict_comp f xs (AList.update k v d))"

text \<open>
  \<open>k if isinstance(k, int) else self._class_encoder.transform((k,))[0]\<close>: the encoder
  is fitted on raw label strings, so a key that is neither an int nor one of them is
  an unseen label.
\<close>

definition translate_key :: "class_encoder \<Rightarrow> pyval \<Rightarrow> error + pyval" where
  "translate_key ce k =
     (case k of
        PInt i \<Rightarrow> Inr (PInt i)
      | PStr s \<Rightarrow> (case ce_transform1 ce s of Inl e \<Rightarrow> Inl e | Inr i \<Rightarrow> Inr (PInt (int i)))
      | _ \<Rightarrow> (case ce of None \<Rightarrow> Inl NotFittedError | Some _ \<Rightarrow> Inl (ValueError UnseenLabels)))"

definition translate_weights :: "class_encoder \<Rightarrow> pyval \<Rightarrow> error + pyval" where
  "translate_weights ce cw_dict =
     (case cw_dict of
        PDict items \<Rightarrow>
          (case dict_comp (\<lambda>(k, v). case translate_key ce k of
                                     Inl e \<Rightarrow> Inl e | Inr k' \<Rightarrow> Inr (k', v)) items [] of
             Inl e \<Rightarrow> Inl e
           | Inr d \<Rightarrow> Inr (PDict d))
      | _ \<Rightarrow> Inl AttributeError)"

text \<open>The body of the loop over \<open>raw_bias\<close>: the weight dict of one bias candidate.\<close>

definition bias_weights :: "string list \<Rightarrow> nat list \<Rightarrow> pyval \<Rightarrow> error + pyval" where
  "bias_weights classes y class_bias =
     (let class_count = bincount y;
          balanced_w = map (balanced_weight (length y) (length classes)) class_count;
          balanced_tuples = zip [0..<length classes] balanced_w
      in case dict_comp (\<lambda>(c, w). case interpolate class_bias w of
                                    Inl e \<Rightarrow> Inl e
                                  | Inr x \<Rightarrow> Inr (PInt (int c), PFloat x)) balanced_tuples [] of
           Inl e \<Rightarrow> Inl e
         | Inr d \<Rightarrow> Inr (PDict d))"

fun first :: "'a list \<Rightarrow> error + 'a" where
  "first [] = Inl IndexError"
| "first (x # xs) = Inr x"

text \<open>
  What \<open>_convert_params\<close> makes of the dict it is given. Every assignment to the dict
  comes after the last step that can raise, so an exception leaves the dict as it was.
\<close>

definition convert_params_dict :: "class_encoder \<Rightarrow> pdict \<Rightarrow> nat list \<Rightarrow> bool \<Rightarrow> error + pdict" where
  "convert_params_dict ce param_grid y is_grid =
     (case map_of param_grid ''class_weight'' of
        Some cw \<Rightarrow>
          (case (if is_grid then py_iter cw else Inr [cw]) of
             Inl e \<Rightarrow> Inl e
           | Inr raw_weights \<Rightarrow>
               (case map_err (translate_weights ce) raw_weights of
                  Inl e \<Rightarrow> Inl e
                | Inr weights \<Rightarrow>
                    (case (if is_grid then Inr (PList weights) else first weights) of
                       Inl e \<Rightarrow> Inl e
                     | Inr w \<Rightarrow> Inr (AList.update ''class_weight'' w param_grid))))
      | None \<Rightarrow>
          (case map_of param_grid ''class_bias'' of
             Some cb \<Rightarrow>
               (case ce of
                  None \<Rightarrow> Inl AttributeError
                | Some classes \<Rightarrow>
                    (case (if is_grid then py_iter cb else Inr [cb]) of
                       Inl e \<Rightarrow> Inl e
                     | Inr raw_bias \<Rightarrow>
                         (case map_err (bias_weights classes y) raw_bias of
                            Inl e \<Rightarrow> Inl e
                          | Inr weights \<Rightarrow>
                              (case (if is_grid then Inr (PList weights) else first weights) of
                                 Inl e \<Rightarrow> Inl e
                               | Inr w \<Rightarrow>
                                   Inr (AList.delete ''class_bias''
                                          (AList.update ''class_weight'' w param_grid))))))
           | None \<Rightarrow> Inr param_grid))"

text \<open>
  \<open>_convert_params(param_grid, y, is_grid)\<close>: \<open>param_grid\<close> is a reference; the dict
  it points to is rewritten in the heap and the reference itself is returned.
\<close>

definition u_convert_params :: "class_encoder \<Rightarrow> heap \<Rightarrow> addr \<Rightarrow> nat list \<Rightarrow> bool
    \<Rightarrow> (error + addr) \<times> heap" where
  "u_convert_params ce h param_grid y is_grid =
     (case convert_params_dict ce (h param_grid) y is_grid of
        Inl e \<Rightarrow> (Inl e, h)
      | Inr d \<Rightarrow> (Inr param_grid, h(param_grid := d)))"

section \<open>Training: \<open>_get_model_constructor\<close>, \<open>_fit\<close> and \<open>fit\<close>\<close>

text \<open>
  The lookup of the classifier kind. \<open>self.__class__.__name__\<close> is \<open>TextModel\<close>.
  Subscripting absent settings is a TypeError, a missing key a KeyError.
\<close>

definition u_get_model_constructor :: "('s, 'clf, 'sel) text_model \<Rightarrow> error + model_class" where
  "u_get_model_constructor self =
     (case model_settings self of
        None \<Rightarrow> Inl TypeError
      | Some settings \<Rightarrow>
          (case map_of settings ''classifier_type'' of
             None \<Rightarrow> Inl KeyError
           | Some classifier_type \<Rightarrow>
               (if classifier_type = ''logreg'' then Inr LogisticRegression
                else if classifier_type = ''dtree'' then Inr DecisionTreeClassifier
                else if classifier_type = ''rforest'' then Inr RandomForestClassifier
                else if classifier_type = ''svm'' then Inr SVC
                else Inl (ValueError (NotRecognized ''TextModel'' classifier_type)))))"

text \<open>
  \<open>_fit(X, y, params)\<close>: the parameters are converted first, then the constructor is
  looked up, then the classifier is built and fitted. \<open>params = None\<close> makes the
  membership test of \<open>_convert_params\<close> a TypeError.
\<close>

definition u_fit ::
  "('ex, 'lab, 'f, 'x, 's, 'clf, 'sel) collaborators \<Rightarrow> ('s, 'clf, 'sel) text_model
   \<Rightarrow> heap \<Rightarrow> 'x \<Rightarrow> nat list \<Rightarrow> addr option \<Rightarrow> (error + 'clf) \<times> heap" where
  "u_fit env self h X y params =
     (case params of
        None \<Rightarrow> (Inl TypeError, h)
      | Some a \<Rightarrow>
          (case u_convert_params (class_encoder self) h a y False of
             (Inl e, h1) \<Rightarrow> (Inl e, h1)
           | (Inr a', h1) \<Rightarrow>
               (case u_get_model_constructor self of
                  Inl e \<Rightarrow> (Inl e, h1)
                | Inr model_class \<Rightarrow>
                    (case clf_fit env model_class (h1 a') X y of
                       Inl e \<Rightarrow> (Inl e, h1)
                     | Inr c \<Rightarrow> (Inr c, h1)))))"

datatype outcome = Returned | Raised error

text \<open>Truth value of \<open>params\<close>: None and the empty dict are false.\<close>

definition truthy :: "heap \<Rightarrow> addr option \<Rightarrow> bool" where
  "truthy h p = (case p of None \<Rightarrow> False | Some a \<Rightarrow> h a \<noteq> [])"

text \<open>
  \<open>fit(examples, labels, params)\<close> returns \<open>self\<close> or raises; either way the model and
  the heap are as the call left them. \<open>indices\<close> is \<open>range(len(labels))\<close> as
  \<open>random.shuffle\<close> left it; reading \<open>examples[i]\<close> or \<open>labels[i]\<close> out of range is
  an IndexError. In fit mode \<open>get_feature_matrix\<close> returns class ids, so the last
  branch is not reached.
\<close>

definition fit ::
  "('ex, 'lab, 'f, 'x, 's, 'clf, 'sel) collaborators \<Rightarrow> ('s, 'clf, 'sel) text_model
   \<Rightarrow> heap \<Rightarrow> 'ex list \<Rightarrow> 'lab list \<Rightarrow> addr option
   \<Rightarrow> outcome \<times> ('s, 'clf, 'sel) text_model \<times> heap" where
  "fit env self h examples labels params0 =
     (let params = (if truthy h params0 then params0 else config_params self);
          skip_param_selection = (params \<noteq> None \<or> param_selection self = None);
          indices = shuffle env [0..<length labels]
      in if \<exists>i \<in> set indices. length examples \<le> i then (Raised IndexError, self, h)
         else if \<exists>i \<in> set indices. length labels \<le> i then (Raised IndexError, self, h)
         else
           (let examples' = map (\<lambda>i. examples ! i) indices;
                labels' = map (\<lambda>i. labels ! i) indices;
                distinct_labels = remdups labels'
            in if length distinct_labels \<le> 1 then (Returned, self, h)
               else
                 (let y = lbl_encode env labels'
                  in case get_feature_matrix env self examples' (Some y) True of
                       (Inl e, self1) \<Rightarrow> (Raised e, self1, h)
                     | (Inr (X, YIds ids, groups), self1) \<Rightarrow>
                         (if skip_param_selection then
                            (case u_fit env self1 h X ids params of
                               (Inl e, h1) \<Rightarrow> (Raised e, self1, h1)
                             | (Inr c, h1) \<Rightarrow>
                                 (Returned,
                                  self1\<lparr>clf := Some c, current_params := params\<rparr>, h1))
                          else
                            (case fit_cv env self1 h X ids groups of
                               (Inl e, h1) \<Rightarrow> (Raised e, self1, h1)
                             | (Inr (best_clf, best_params), h1) \<Rightarrow>
                                 (Returned,
                                  self1\<lparr>clf := Some best_clf,
                                        current_params := Some best_params\<rparr>, h1)))
                     | (Inr (X, _, groups), self1) \<Rightarrow> (Raised TypeError, self1, h))))"

section \<open>Serialization: \<open>__getstate__\<close>\<close>

text \<open>
  An attribute value is a dict with string keys or some other object. \<open>__getstate__\<close>
  works on the instance's \<open>__dict__\<close>; the two resource names are constants of
  \<open>helpers\<close> and are parameters here. Reading \<open>self._resources\<close> when the attribute
  is missing, or calling \<open>get\<close> on a value that is no dict, is an AttributeError.
\<close>

datatype 'o pyobj = ODict "(string \<times> 'o pyobj) list" | OOther 'o

definition getstate :: "string \<Rightarrow> string \<Rightarrow> (string \<times> 'o pyobj) list
    \<Rightarrow> error + (string \<times> 'o pyobj) list" where
  "getstate WORD_FREQ_RSC QUERY_FREQ_RSC self_dict =
     (let attributes = self_dict
      in case map_of self_dict ''_resources'' of
           Some (ODict resources) \<Rightarrow>
             Inr (AList.update ''_resources''
                    (ODict (AList.update QUERY_FREQ_RSC
                              (dict_get resources QUERY_FREQ_RSC (ODict []))
                              [(WORD_FREQ_RSC, dict_get resources WORD_FREQ_RSC (ODict []))]))
                    attributes)
         | _ \<Rightarrow> Inl AttributeError)"

section \<open>Notions used in the statements\<close>



text \<open>A small instance of the collaborators, for evaluating the model on concrete inputs.\<close>

definition example_env ::
  "(nat, string, nat, nat list, nat, pyfloat list list, unit) collaborators" where
  "example_env =
     \<lparr>extract_features = (\<lambda>e. e),
      lbl_encode = (\<lambda>ls. ls),
      lbl_decode = (\<lambda>raw. raw),
      vec_fit_transform = (\<lambda>s fs. (Suc s, fs)),
      vec_transform = (\<lambda>s fs. fs),
      scaler_fit_transform = (\<lambda>s X. (Suc s, map Suc X)),
      scaler_transform = (\<lambda>s X. map Suc X),
      selector_fit_transform = (\<lambda>s X y. (Suc s, [sum_list X])),
      selector_transform = (\<lambda>s X. [sum_list X]),
      clf_fit = (\<lambda>mc params X y. Inr []),
      clf_predict_proba = (\<lambda>c X. c),
      clf_predict_log_proba = (\<lambda>c X. c),
      fit_cv = (\<lambda>self h X y groups. ((Inr ([], 0), h))),
      shuffle = rev\<rparr>"

definition example_model :: "(nat, pyfloat list list, unit) text_model" where
  "example_model =
     \<lparr>model_settings = Some [(''classifier_type'', ''logreg'')],
      config_params = None,
      param_selection = None,
      clf = None,
      current_params = None,
      class_encoder = None,
      feat_vectorizer = 0,
      feat_scaler = Some 0,
      feat_selector = Some 0\<rparr>"

definition empty_heap :: heap where
  "empty_heap = (\<lambda>a. [])"








definition example_heap :: heap where
  "example_heap = empty_heap(0 := [(''C'', PInt 1), (''class_bias'', PFloat (Fin (1/2)))])"

section \<open>Decoding rows: the loop invariant\<close>








section \<open>The top label of a probability row\<close>



section \<open>Rows with no value above the default threshold\<close>






section \<open>The sentinel for negative infinity\<close>

lemma replace_neg_inf_no_neg_inf: "\<forall>e \<in> set (replace_neg_inf probas). snd e \<noteq> NegInf"
  by (auto simp: replace_neg_inf_def NEG_INF_def split: if_splits)

text \<open>
  Claim C3. No distribution returned by \<open>predict_log_proba\<close> holds negative infinity:
  the result is the decoding of the classifier's log-probability rows with every value
  equal to negative infinity replaced by \<open>-1e10\<close> and every other value, every label
  and every top label as decoded.
\<close>

theorem predict_log_proba_no_neg_inf:
  assumes "predict_log_proba env self examples = Inr res"
  shows "(\<forall>r \<in> set res. \<forall>e \<in> set (snd r). snd e \<noteq> NegInf) \<and>
         (\<exists>X y g c raw.
            fst (get_feature_matrix env self examples None False) = Inr (X, y, g) \<and>
            clf self = Some c \<and>
            u_predict_proba (class_encoder self) (lbl_decode env)
              (clf_predict_log_proba env c X) = Inr raw \<and>
            res = map (\<lambda>(tc, probas).
                    (tc, map (\<lambda>(label, proba).
                           (label, if proba = NegInf then Fin (- 10000000000) else proba)) probas))
                  raw)"
proof -
  from assms obtain X y g c raw where
    a: "fst (get_feature_matrix env self examples None False) = Inr (X, y, g)"
       "clf self = Some c"
       "u_predict_proba (class_encoder self) (lbl_decode env)
              (clf_predict_log_proba env c X) = Inr raw"
       "res = map (\<lambda>(tc, probas). (tc, replace_neg_inf probas)) raw"
    by (auto simp: predict_log_proba_def split: sum.splits option.splits prod.splits)
  have "\<forall>r \<in> set res. \<forall>e \<in> set (snd r). snd e \<noteq> NegInf"
    using a(4) replace_neg_inf_no_neg_inf by fastforce
  moreover have "res = map (\<lambda>(tc, probas).
                    (tc, map (\<lambda>(label, proba).
                           (label, if proba = NegInf then Fin (- 10000000000) else proba)) probas))
                  raw"
    unfolding a(4) replace_neg_inf_def NEG_INF_def by (rule refl)
  ultimately show ?thesis using a(1-3) by blast
qed

theorem predict_log_proba_no_neg_inf_witness:
  "predict_log_proba example_env
      (example_model\<lparr>class_encoder := Some [''a'', ''b''],
                     clf := Some [[NegInf, Fin 0]]\<rparr>) [7]
     = Inr [(Some ''b'', [(''a'', Fin (- 10000000000)), (''b'', Fin 0)])] \<and>
   list_all (\<lambda>r. list_all (\<lambda>e. snd e \<noteq> NegInf) (snd r))
     [(Some ''b'', [(''a'', Fin (- 10000000000)), (''b'', Fin 0)])]"
proof -
  have run: "predict_log_proba example_env
      (example_model\<lparr>class_encoder := Some [''a'', ''b''],
                     clf := Some [[NegInf, Fin 0]]\<rparr>) [7]
     = Inr [(Some ''b'', [(''a'', Fin (- 10000000000)), (''b'', Fin 0)])]"
    by (simp add: predict_log_proba_def get_feature_matrix_def u_preprocess_data_def
      example_env_def example_model_def decode_row_def ce_inverse_transform1_def
      dict_get_def Let_def replace_neg_inf_def NEG_INF_def)
  from predict_log_proba_no_neg_inf [OF run] run show ?thesis by simp
qed

section \<open>The order of the feature stages\<close>

text \<open>
  Claim C6. \<open>_preprocess_data\<close> applies vectorizer, scaler and selector in this order.
  In fit mode each configured stage is fitted and applied to the output of the stage
  before it, the selector with the class ids, and the refitted stages are stored; in
  transform mode the stages' transforms are composed in the same order, the matrix
  does not depend on the labels, the labels come back as they went in and the model
  is unchanged. A scaler or selector that is None is skipped in both modes.
\<close>

theorem preprocess_stage_order:
  assumes "ce_fit_transform raw = (ce, ids)"
    and "vec_fit_transform env (feat_vectorizer self) X = (vs, X1)"
    and "X2 = (case feat_scaler self of None \<Rightarrow> X1
               | Some sc \<Rightarrow> snd (scaler_fit_transform env sc X1))"
    and "X3 = (case feat_selector self of None \<Rightarrow> X2
               | Some fs \<Rightarrow> snd (selector_fit_transform env fs X2 ids))"
    and "T1 = vec_transform env (feat_vectorizer self) X"
    and "T2 = (case feat_scaler self of None \<Rightarrow> T1 | Some sc \<Rightarrow> scaler_transform env sc T1)"
    and "T3 = (case feat_selector self of None \<Rightarrow> T2 | Some fs \<Rightarrow> selector_transform env fs T2)"
  shows "u_preprocess_data env self X (Some raw) True =
           (Inr (X3, YIds ids),
            self\<lparr>class_encoder := ce, feat_vectorizer := vs,
                 feat_scaler :=
                   map_option (\<lambda>sc. fst (scaler_fit_transform env sc X1)) (feat_scaler self),
                 feat_selector :=
                   map_option (\<lambda>fs. fst (selector_fit_transform env fs X2 ids))
                     (feat_selector self)\<rparr>) \<and>
         u_preprocess_data env self X y False = (Inr (T3, y_in y), self)"
  using assms
  by (simp add: u_preprocess_data_def Let_def split_beta split: option.splits)

theorem preprocess_stage_order_witness:
  "u_preprocess_data example_env example_model [1, 2, 3] (Some [''b'', ''a'', ''b'']) True =
     (Inr ([9], YIds [1, 0, 1]),
      example_model\<lparr>class_encoder := Some [''a'', ''b''], feat_vectorizer := 1,
                    feat_scaler := Some 1, feat_selector := Some 1\<rparr>) \<and>
   u_preprocess_data example_env example_model [1, 2, 3] None False =
     (Inr ([9], YNone), example_model)"
proof -
  have h1: "ce_fit_transform [''b'', ''a'', ''b''] = (Some [''a'', ''b''], [1, 0, 1])"
    by (simp add: ce_fit_transform_def)
  have h2: "vec_fit_transform example_env (feat_vectorizer example_model) [1, 2, 3]
      = (1, [1, 2, 3])"
    by (simp add: example_env_def example_model_def)
  have h3: "[2, 3, 4] = (case feat_scaler example_model of None \<Rightarrow> [1, 2, 3]
               | Some sc \<Rightarrow> snd (scaler_fit_transform example_env sc [1, 2, 3]))"
    by (simp add: example_env_def example_model_def)
  have h4: "[9] = (case feat_selector example_model of None \<Rightarrow> [2, 3, 4]
               | Some fs \<Rightarrow> snd (selector_fit_transform example_env fs [2, 3, 4] [1, 0, 1]))"
    by (simp add: example_env_def example_model_def)
  have h5: "[1, 2, 3] = vec_transform example_env (feat_vectorizer example_model) [1, 2, 3]"
    by (simp add: example_env_def)
  have h6: "[2, 3, 4] = (case feat_scaler example_model of None \<Rightarrow> [1, 2, 3]
               | Some sc \<Rightarrow> scaler_transform example_env sc [1, 2, 3])"
    by (simp add: example_env_def example_model_def)
  have h7: "[9] = (case feat_selector example_model of None \<Rightarrow> [2, 3, 4]
               | Some fs \<Rightarrow> selector_transform example_env fs [2, 3, 4])"
    by (simp add: example_env_def example_model_def)
  have st: "example_model\<lparr>class_encoder := Some [''a'', ''b''], feat_vectorizer := 1,
              feat_scaler := map_option (\<lambda>sc. fst (scaler_fit_transform example_env sc [1, 2, 3]))
                               (feat_scaler example_model),
              feat_selector := map_option
                  (\<lambda>fs. fst (selector_fit_transform example_env fs [2, 3, 4] [1, 0, 1]))
                  (feat_selector example_model)\<rparr>
            = example_model\<lparr>class_encoder := Some [''a'', ''b''], feat_vectorizer := 1,
                    feat_scaler := Some 1, feat_selector := Some 1\<rparr>"
    by (simp add: example_env_def example_model_def)
  from preprocess_stage_order [OF h1 h2 h3 h4 h5 h6 h7, of None]
  show ?thesis unfolding st by simp
qed

section \<open>Training on a degenerate label set\<close>

lemma shuffled_indices:
  assumes "mset ixs = mset [0..<n]"
  shows "set ixs = {0..<n}"
  using assms by (metis mset_eq_setD set_upt)

lemma shuffled_labels_set:
  assumes "set ixs = {0..<length labels}"
  shows "set (map (\<lambda>i. labels ! i) ixs) = set labels"
  using assms by (auto simp: in_set_conv_nth)

text \<open>
  Claim C4. When \<open>labels\<close> has at most one distinct element, \<open>fit\<close> returns and
  leaves the model (classifier, class encoder, vectorizer, scaler, selector, current
  params) and the parameter dicts as they were. \<open>examples\<close> and \<open>labels\<close> are parallel
  lists, as the docstring requires, and \<open>random.shuffle\<close> permutes the indices.
\<close>

theorem fit_degenerate_labels_noop:
  assumes "mset (shuffle env [0..<length labels]) = mset [0..<length labels]"
    and "length labels \<le> length examples"
    and "card (set labels) \<le> 1"
  shows "fit env self h examples labels params = (Returned, self, h)"
proof -
  let ?ixs = "shuffle env [0..<length labels]"
  have ixs: "set ?ixs = {0..<length labels}"
    using assms(1) by (rule shuffled_indices)
  have in_ex: "\<not> (\<exists>i \<in> set ?ixs. length examples \<le> i)"
    using ixs assms(2) by auto
  have in_lb: "\<not> (\<exists>i \<in> set ?ixs. length labels \<le> i)"
    using ixs by auto
  have "set (map (\<lambda>i. labels ! i) ?ixs) = set labels"
    using ixs by (rule shuffled_labels_set)
  then have "length (remdups (map (\<lambda>i. labels ! i) ?ixs)) \<le> 1"
    using assms(3) by (simp add: length_remdups_card_conv)
  then show ?thesis
    using in_ex in_lb unfolding fit_def Let_def by simp
qed

theorem fit_degenerate_labels_noop_witness:
  "fit example_env example_model empty_heap [4, 5, 6] [''A'', ''A'', ''A''] (Some 0)
     = (Returned, example_model, empty_heap)"
  using fit_degenerate_labels_noop [where env = example_env and labels = "[''A'', ''A'', ''A'']"
      and examples = "[4, 5, 6]" and self = example_model and h = empty_heap
      and params = "Some 0"]
  by (simp add: example_env_def)

section \<open>The serialized state\<close>

text \<open>
  Claim C8. For an instance whose \<open>_resources\<close> attribute is a dict, \<open>__getstate__\<close>
  returns the attribute dictionary with the same attribute names, every attribute
  other than \<open>_resources\<close> unchanged, and \<open>_resources\<close> replaced by a dict whose keys are
  exactly the two whitelisted names, each holding the instance's entry of that name,
  or an empty dict when the instance has none. No other resource is kept.
\<close>

theorem getstate_prunes_resources:
  assumes "map_of self_dict ''_resources'' = Some (ODict resources)"
  shows "\<exists>state pruned.
           getstate WORD_FREQ_RSC QUERY_FREQ_RSC self_dict = Inr state \<and>
           map fst state = map fst self_dict \<and>
           (\<forall>name. name \<noteq> ''_resources'' \<longrightarrow> map_of state name = map_of self_dict name) \<and>
           map_of state ''_resources'' = Some (ODict pruned) \<and>
           fst ` set pruned = {WORD_FREQ_RSC, QUERY_FREQ_RSC} \<and>
           (WORD_FREQ_RSC \<noteq> QUERY_FREQ_RSC \<longrightarrow> length pruned = 2) \<and>
           map_of pruned WORD_FREQ_RSC
             = Some (case map_of resources WORD_FREQ_RSC of None \<Rightarrow> ODict [] | Some t \<Rightarrow> t) \<and>
           map_of pruned QUERY_FREQ_RSC
             = Some (case map_of resources QUERY_FREQ_RSC of None \<Rightarrow> ODict [] | Some t \<Rightarrow> t)"
proof -
  let ?pruned = "AList.update QUERY_FREQ_RSC (dict_get resources QUERY_FREQ_RSC (ODict []))
                   [(WORD_FREQ_RSC, dict_get resources WORD_FREQ_RSC (ODict []))]"
  let ?state = "AList.update ''_resources'' (ODict ?pruned) self_dict"
  have run: "getstate WORD_FREQ_RSC QUERY_FREQ_RSC self_dict = Inr ?state"
    using assms by (simp add: getstate_def)
  have key: "''_resources'' \<in> set (map fst self_dict)"
    using assms by (metis map_of_eq_None_iff option.distinct(1) set_map)
  have names: "map fst ?state = map fst self_dict"
    using key by (simp add: update_keys)
  have others: "\<forall>name. name \<noteq> ''_resources'' \<longrightarrow> map_of ?state name = map_of self_dict name"
    by (simp add: update_conv')
  have res: "map_of ?state ''_resources'' = Some (ODict ?pruned)"
    by (simp add: update_conv')
  have keys: "fst ` set ?pruned = {WORD_FREQ_RSC, QUERY_FREQ_RSC}"
    by auto
  have len: "WORD_FREQ_RSC \<noteq> QUERY_FREQ_RSC \<longrightarrow> length ?pruned = 2"
    by simp
  have w: "map_of ?pruned WORD_FREQ_RSC
      = Some (case map_of resources WORD_FREQ_RSC of None \<Rightarrow> ODict [] | Some t \<Rightarrow> t)"
    by (simp add: dict_get_def)
  have q: "map_of ?pruned QUERY_FREQ_RSC
      = Some (case map_of resources QUERY_FREQ_RSC of None \<Rightarrow> ODict [] | Some t \<Rightarrow> t)"
    by (simp add: dict_get_def)
  from run names others res keys len w q show ?thesis by blast
qed

theorem getstate_prunes_resources_witness:
  "getstate ''w_freq'' ''q_freq''
     [(''_clf'', OOther (1::nat)),
      (''_resources'', ODict [(''gazetteers'', OOther 2), (''w_freq'', ODict [(''the'', OOther 7)])]),
      (''cv_loss_'', OOther 3)]
   = Inr [(''_clf'', OOther 1),
          (''_resources'', ODict [(''w_freq'', ODict [(''the'', OOther 7)]), (''q_freq'', ODict [])]),
          (''cv_loss_'', OOther 3)]"
  using getstate_prunes_resources [where self_dict =
      "[(''_clf'', OOther (1::nat)),
      (''_resources'', ODict [(''gazetteers'', OOther 2), (''w_freq'', ODict [(''the'', OOther 7)])]),
      (''cv_loss_'', OOther 3)]"
      and resources = "[(''gazetteers'', OOther 2), (''w_freq'', ODict [(''the'', OOther 7)])]"
      and WORD_FREQ_RSC = "''w_freq''" and QUERY_FREQ_RSC = "''q_freq''"]
  by (simp add: getstate_def dict_get_def)

section \<open>The class-bias interpolation\<close>








lemma map_err_all:
  assumes "\<forall>x \<in> set xs. f x = Inr (g x)"
  shows "map_err f xs = Inr (map g xs)"
  using assms by (induction xs) auto


lemma first_singleton: "first [w] = Inr w"
  by simp



section \<open>Translating the keys of class weights\<close>














section \<open>Training with a parameter dict\<close>

lemma convert_params_dict_shape:
  assumes "convert_params_dict ce pg y g = Inr d"
  shows "(\<exists>w. map_of pg ''class_weight'' \<noteq> None \<and> d = AList.update ''class_weight'' w pg) \<or>
         (\<exists>w. map_of pg ''class_weight'' = None \<and> map_of pg ''class_bias'' \<noteq> None \<and>
               d = AList.delete ''class_bias'' (AList.update ''class_weight'' w pg)) \<or>
         (map_of pg ''class_weight'' = None \<and> map_of pg ''class_bias'' = None \<and> d = pg)"
  using assms unfolding convert_params_dict_def
  by (auto split: option.splits sum.splits if_splits)

lemma get_feature_matrix_fit:
  "\<exists>X self1. get_feature_matrix env self exs (Some raw) True
       = (Inr (X, YIds (snd (ce_fit_transform raw)), [0..<length exs]), self1) \<and>
     class_encoder self1 = fst (ce_fit_transform raw) \<and>
     clf self1 = clf self \<and> current_params self1 = current_params self \<and>
     model_settings self1 = model_settings self"
  by (simp add: get_feature_matrix_def u_preprocess_data_def Let_def split_beta
      split: option.splits)

lemma fit_direct:
  assumes perm: "mset (shuffle env [0..<length labels]) = mset [0..<length labels]"
    and ex_ok: "\<not> (\<exists>i \<in> set (shuffle env [0..<length labels]). length examples \<le> i)"
    and nondeg: "1 < card (set labels)"
    and eff: "(if truthy h params0 then params0 else config_params self) = Some a"
    and gfm: "get_feature_matrix env self
                (map (\<lambda>i. examples ! i) (shuffle env [0..<length labels]))
                (Some (lbl_encode env (map (\<lambda>i. labels ! i) (shuffle env [0..<length labels]))))
                True = (Inr (X, YIds ids, groups), self1)"
  shows "fit env self h examples labels params0 =
           (case u_fit env self1 h X ids (Some a) of
              (Inl e, h1) \<Rightarrow> (Raised e, self1, h1)
            | (Inr c, h1) \<Rightarrow>
                (Returned, self1\<lparr>clf := Some c, current_params := Some a\<rparr>, h1))"
proof -
  let ?ixs = "shuffle env [0..<length labels]"
  have ixs: "set ?ixs = {0..<length labels}" using perm by (rule shuffled_indices)
  have lb_ok: "\<not> (\<exists>i \<in> set ?ixs. length labels \<le> i)" using ixs by auto
  have "set (map (\<lambda>i. labels ! i) ?ixs) = set labels" using ixs by (rule shuffled_labels_set)
  then have "length (remdups (map (\<lambda>i. labels ! i) ?ixs)) = card (set labels)"
    by (simp add: length_remdups_card_conv)
  then have nd: "\<not> length (remdups (map (\<lambda>i. labels ! i) ?ixs)) \<le> 1"
    using nondeg by simp
  show ?thesis
    unfolding fit_def Let_def eff
    using ex_ok lb_ok nd gfm by (simp split: prod.splits sum.splits)
qed

lemma fit_index_error:
  assumes "\<exists>i \<in> set (shuffle env [0..<length labels]). length examples \<le> i"
  shows "fit env self h examples labels params0 = (Raised IndexError, self, h)"
  using assms unfolding fit_def Let_def by simp

lemma u_fit_returns:
  assumes "u_fit env self1 h X ids (Some a) = (Inr c, h1)"
  shows "\<exists>d. convert_params_dict (class_encoder self1) (h a) ids False = Inr d \<and> h1 = h(a := d)"
  using assms unfolding u_fit_def u_convert_params_def
  by (auto split: sum.splits prod.splits)


lemma convert_params_dict_effect:
  assumes "convert_params_dict ce pg y g = Inr d"
  shows "(map_of pg ''class_weight'' \<noteq> None \<longrightarrow>
            map_of d ''class_weight'' \<noteq> None \<and> map fst d = map fst pg) \<and>
         (map_of pg ''class_weight'' = None \<longrightarrow> map_of pg ''class_bias'' \<noteq> None \<longrightarrow>
            map_of d ''class_bias'' = None \<and> map_of d ''class_weight'' \<noteq> None) \<and>
         (\<forall>k. k \<noteq> ''class_weight'' \<longrightarrow> k \<noteq> ''class_bias'' \<longrightarrow>
            map_of d k = map_of pg k)"
  using convert_params_dict_shape[OF assms]
proof (elim disjE exE conjE)
  fix w assume p: "map_of pg ''class_weight'' \<noteq> None"
    and d: "d = AList.update ''class_weight'' w pg"
  have "''class_weight'' \<in> set (map fst pg)"
    using p by (metis map_of_eq_None_iff set_map)
  then have keys: "map fst d = map fst pg" unfolding d by (simp add: update_keys)
  have m: "map_of d = (map_of pg)(''class_weight'' \<mapsto> w)"
    unfolding d by (rule update_conv')
  from p obtain v where v: "map_of pg ''class_weight'' = Some v" by auto
  show ?thesis using keys v unfolding m by simp
next
  fix w assume p: "map_of pg ''class_weight'' = None" "map_of pg ''class_bias'' \<noteq> None"
    and d: "d = AList.delete ''class_bias'' (AList.update ''class_weight'' w pg)"
  have m: "map_of d = ((map_of pg)(''class_weight'' \<mapsto> w))(''class_bias'' := None)"
    unfolding d by (simp only: delete_conv' update_conv')
  from p(2) obtain v where v: "map_of pg ''class_bias'' = Some v" by auto
  show ?thesis using p(1) v unfolding m by simp
next
  assume "map_of pg ''class_weight'' = None" "map_of pg ''class_bias'' = None" "d = pg"
  then show ?thesis by simp
qed

text \<open>
  Claim C9. \<open>_convert_params\<close> either raises and leaves the heap as it was, or returns
  the reference it was given and rewrites the dict behind it: an existing
  \<open>class_weight\<close> entry is overwritten in its place, and otherwise a \<open>class_bias\<close> entry
  is deleted and a \<open>class_weight\<close> entry inserted; every other entry is untouched.
  After a \<open>fit\<close> with a non-empty \<open>params\<close> dict that trains (more than one distinct
  label) and returns, \<open>_current_params\<close> is the caller's reference and the caller's
  dict is the converted one.
\<close>

theorem convert_params_mutates_in_place:
  "((\<exists>e. u_convert_params ce h a y g = (Inl e, h)) \<or>
    (\<exists>d. u_convert_params ce h a y g = (Inr a, h(a := d)) \<and>
         (map_of (h a) ''class_weight'' \<noteq> None \<longrightarrow>
            map_of d ''class_weight'' \<noteq> None \<and> map fst d = map fst (h a)) \<and>
         (map_of (h a) ''class_weight'' = None \<longrightarrow> map_of (h a) ''class_bias'' \<noteq> None \<longrightarrow>
            map_of d ''class_bias'' = None \<and> map_of d ''class_weight'' \<noteq> None) \<and>
         (\<forall>k. k \<noteq> ''class_weight'' \<longrightarrow> k \<noteq> ''class_bias'' \<longrightarrow>
            map_of d k = map_of (h a) k))) \<and>
   (mset (shuffle env [0..<length labels]) = mset [0..<length labels] \<longrightarrow>
    1 < card (set labels) \<longrightarrow> h a \<noteq> [] \<longrightarrow>
    fit env self h examples labels (Some a) = (Returned, self', h') \<longrightarrow>
      current_params self' = Some a \<and>
      (\<exists>d. convert_params_dict (class_encoder self') (h a)
              (snd (ce_fit_transform
                     (lbl_encode env (map (\<lambda>i. labels ! i) (shuffle env [0..<length labels])))))
              False = Inr d \<and>
           h' = h(a := d)))"
proof (intro conjI impI)
  show "(\<exists>e. u_convert_params ce h a y g = (Inl e, h)) \<or>
    (\<exists>d. u_convert_params ce h a y g = (Inr a, h(a := d)) \<and>
         (map_of (h a) ''class_weight'' \<noteq> None \<longrightarrow>
            map_of d ''class_weight'' \<noteq> None \<and> map fst d = map fst (h a)) \<and>
         (map_of (h a) ''class_weight'' = None \<longrightarrow> map_of (h a) ''class_bias'' \<noteq> None \<longrightarrow>
            map_of d ''class_bias'' = None \<and> map_of d ''class_weight'' \<noteq> None) \<and>
         (\<forall>k. k \<noteq> ''class_weight'' \<longrightarrow> k \<noteq> ''class_bias'' \<longrightarrow>
            map_of d k = map_of (h a) k))"
  proof (cases "convert_params_dict ce (h a) y g")
    case (Inl e)
    then have "u_convert_params ce h a y g = (Inl e, h)"
      by (simp add: u_convert_params_def)
    then show ?thesis by (intro disjI1 exI)
  next
    case (Inr d)
    have run: "u_convert_params ce h a y g = (Inr a, h(a := d))"
      using Inr by (simp add: u_convert_params_def)
    show ?thesis
      by (rule disjI2, rule exI[of _ d], rule conjI, rule run,
          rule convert_params_dict_effect[OF Inr])
  qed
next
  let ?ixs = "shuffle env [0..<length labels]"
  let ?raw = "lbl_encode env (map (\<lambda>i. labels ! i) ?ixs)"
  assume perm: "mset ?ixs = mset [0..<length labels]"
    and nondeg: "1 < card (set labels)" and ne: "h a \<noteq> []"
    and ret: "fit env self h examples labels (Some a) = (Returned, self', h')"
  have ex_ok: "\<not> (\<exists>i \<in> set ?ixs. length examples \<le> i)"
  proof
    assume "\<exists>i \<in> set ?ixs. length examples \<le> i"
    from fit_index_error[OF this] ret show False by simp
  qed
  have eff: "(if truthy h (Some a) then Some a else config_params self) = Some a"
    using ne by (simp add: truthy_def)
  from get_feature_matrix_fit[of env self "map (\<lambda>i. examples ! i) ?ixs" ?raw]
  obtain X self1 where gfm: "get_feature_matrix env self (map (\<lambda>i. examples ! i) ?ixs)
        (Some ?raw) True
       = (Inr (X, YIds (snd (ce_fit_transform ?raw)),
               [0..<length (map (\<lambda>i. examples ! i) ?ixs)]), self1)"
    by blast
  note fd = fit_direct[OF perm ex_ok nondeg eff gfm]
  obtain r h1 where rh: "u_fit env self1 h X (snd (ce_fit_transform ?raw)) (Some a) = (r, h1)"
    by (cases "u_fit env self1 h X (snd (ce_fit_transform ?raw)) (Some a)")
  obtain c where uf: "u_fit env self1 h X (snd (ce_fit_transform ?raw)) (Some a) = (Inr c, h')"
    and self': "self' = self1\<lparr>clf := Some c, current_params := Some a\<rparr>"
  proof (cases r)
    case (Inl e)
    then have "fit env self h examples labels (Some a) = (Raised e, self1, h1)"
      using fd rh by simp
    then show ?thesis using ret by simp
  next
    case (Inr c)
    then have "fit env self h examples labels (Some a)
        = (Returned, self1\<lparr>clf := Some c, current_params := Some a\<rparr>, h1)"
      using fd rh by simp
    then have "self' = self1\<lparr>clf := Some c, current_params := Some a\<rparr>" "h' = h1"
      using ret by simp_all
    then show ?thesis using that Inr rh by simp
  qed
  from u_fit_returns[OF uf]
  obtain d where d: "convert_params_dict (class_encoder self1) (h a)
      (snd (ce_fit_transform ?raw)) False = Inr d" "h' = h(a := d)"
    by blast
  show "current_params self' = Some a" using self' by simp
  have "class_encoder self' = class_encoder self1" unfolding self' by simp
  then show "\<exists>d. convert_params_dict (class_encoder self') (h a)
              (snd (ce_fit_transform ?raw)) False = Inr d \<and> h' = h(a := d)"
    using d by auto
qed


lemma ex_enc: "ce_fit_transform [''B'', ''A''] = (Some [''A'', ''B''], [1, 0])"
  by (simp add: ce_fit_transform_def)

lemma ex_gfm:
  "get_feature_matrix example_env
     (example_model\<lparr>model_settings := ms\<rparr>) [5, 4] (Some [''B'', ''A'']) True =
   (Inr ([11], YIds [1, 0], [0, 1]),
    example_model\<lparr>model_settings := ms, class_encoder := Some [''A'', ''B''],
                  feat_vectorizer := 1, feat_scaler := Some 1, feat_selector := Some 1\<rparr>)"
  by (simp add: get_feature_matrix_def u_preprocess_data_def ex_enc example_env_def
      example_model_def upt_rec)

lemma ex_bias: "bias_weights [''A'', ''B''] [1, 0] (PFloat (Fin (1/2)))
    = Inr (PDict [(PInt 0, PFloat (Fin 1)), (PInt 1, PFloat (Fin 1))])"
  by (simp add: bias_weights_def bincount_def balanced_weight_def interpolate_def fsub_def
      upt_rec)

lemma ex_conv: "convert_params_dict (Some [''A'', ''B'']) (example_heap 0) [1, 0] False
    = Inr [(''C'', PInt 1),
           (''class_weight'', PDict [(PInt 0, PFloat (Fin 1)), (PInt 1, PFloat (Fin 1))])]"
  using ex_bias by (simp add: convert_params_dict_def example_heap_def)


lemma ex_perm: "mset (shuffle example_env [0..<length [''A'', ''B'']]) = mset [0..<length [''A'', ''B'']]"
  by (simp add: example_env_def)

lemma ex_shuffled:
  "map (\<lambda>i. [4, 5::nat] ! i) (shuffle example_env [0..<length [''A'', ''B'']]) = [5, 4]"
  "lbl_encode example_env
     (map (\<lambda>i. [''A'', ''B''] ! i) (shuffle example_env [0..<length [''A'', ''B'']]))
   = [''B'', ''A'']"
  by (simp_all add: example_env_def upt_rec)

lemma ex_truthy: "truthy example_heap (Some 0)"
  by (simp add: truthy_def example_heap_def)


lemma example_fit_run:
  "fit example_env example_model example_heap [4, 5] [''A'', ''B''] (Some 0) =
     (Returned,
      example_model\<lparr>class_encoder := Some [''A'', ''B''], feat_vectorizer := 1,
                    feat_scaler := Some 1, feat_selector := Some 1,
                    clf := Some [], current_params := Some 0\<rparr>,
      example_heap(0 := [(''C'', PInt 1),
        (''class_weight'', PDict [(PInt 0, PFloat (Fin 1)), (PInt 1, PFloat (Fin 1))])]))"
proof -
  have gfm: "get_feature_matrix example_env example_model [5, 4] (Some [''B'', ''A'']) True =
     (Inr ([11], YIds [1, 0], [0, 1]),
      example_model\<lparr>class_encoder := Some [''A'', ''B''],
                  feat_vectorizer := 1, feat_scaler := Some 1, feat_selector := Some 1\<rparr>)"
    using ex_gfm[of "Some [(''classifier_type'', ''logreg'')]"] by (simp add: example_model_def)
  have uf: "u_fit example_env
      (example_model\<lparr>class_encoder := Some [''A'', ''B''],
                  feat_vectorizer := 1, feat_scaler := Some 1, feat_selector := Some 1\<rparr>)
      example_heap [11] [1, 0] (Some 0)
    = (Inr [],
       example_heap(0 := [(''C'', PInt 1),
        (''class_weight'', PDict [(PInt 0, PFloat (Fin 1)), (PInt 1, PFloat (Fin 1))])]))"
    using ex_conv
    by (simp add: u_fit_def u_convert_params_def u_get_model_constructor_def
        example_model_def example_env_def)
  show ?thesis
    unfolding fit_def Let_def ex_shuffled
    using ex_truthy gfm uf by (simp add: example_env_def upt_rec)
qed



theorem convert_params_mutates_in_place_witness:
  "fit example_env example_model example_heap [4, 5] [''A'', ''B''] (Some 0) =
     (Returned,
      example_model\<lparr>class_encoder := Some [''A'', ''B''], feat_vectorizer := 1,
                    feat_scaler := Some 1, feat_selector := Some 1,
                    clf := Some [], current_params := Some 0\<rparr>,
      example_heap(0 := [(''C'', PInt 1),
        (''class_weight'', PDict [(PInt 0, PFloat (Fin 1)), (PInt 1, PFloat (Fin 1))])])) \<and>
   current_params
     (example_model\<lparr>class_encoder := Some [''A'', ''B''], feat_vectorizer := 1,
                    feat_scaler := Some 1, feat_selector := Some 1,
                    clf := Some [], current_params := Some 0\<rparr>) = Some 0"
proof -
  have nondeg: "1 < card (set [''A'', ''B''])"
    by simp
  have ne: "example_heap 0 \<noteq> []"
    by (simp add: example_heap_def)
  note fit_part = convert_params_mutates_in_place [where h = example_heap and a = 0
      and env = example_env and labels = "[''A'', ''B'']" and examples = "[4, 5]"
      and self = example_model and ce = None and y = "[]" and g = False,
      THEN conjunct2, rule_format, OF ex_perm nondeg ne example_fit_run]
  from fit_part [THEN conjunct1] example_fit_run show ?thesis by simp
qed

end
